theory Spec2Isabelle
  imports Complex_Main
begin

section \<open>Data model (src/types.ts)\<close>

datatype NoiseColor = WHITE | PINK | BROWN

record AudioState =
  isPlaying :: bool
  volume :: real
  noiseColor :: NoiseColor
  filterFrequency :: real
  filterQ :: real

section \<open>Noise buffers (createNoiseBuffer in src/hooks/useNoiseAudio.ts)\<close>

text \<open>
  JavaScript numbers and the Float32Array that holds the samples are idealised to exact
  reals: rounding is not part of this model. \<open>Math.random()\<close> is an explicit stream
  \<open>random\<close>; the loop of each colour calls it exactly once per iteration, so iteration
  \<open>i\<close> consumes \<open>random i\<close>. The platform promises \<open>0 \<le> random i < 1\<close>.
\<close>

record AudioContext =
  sampleRate :: nat

text \<open>
  \<open>for (let i = 0; i < n; i++) body\<close>: the body runs for \<open>i = 0, 1, ..., n - 1\<close> in this
  order on the loop's variables \<open>s\<close>.
\<close>

fun for_loop :: "nat \<Rightarrow> (nat \<Rightarrow> 's \<Rightarrow> 's) \<Rightarrow> 's \<Rightarrow> 's" where
  "for_loop 0 body s = s"
| "for_loop (Suc n) body s = body n (for_loop n body s)"

definition white_body :: "(nat \<Rightarrow> real) \<Rightarrow> nat \<Rightarrow> real list \<Rightarrow> real list" where
  "white_body random i output = output[i := random i * 2 - 1]"

record pink_vars =
  b0 :: real
  b1 :: real
  b2 :: real
  b3 :: real
  b4 :: real
  b5 :: real
  b6 :: real
  pink_output :: "real list"

definition pink_init :: "real list \<Rightarrow> pink_vars" where
  "pink_init output =
     \<lparr>b0 = 0, b1 = 0, b2 = 0, b3 = 0, b4 = 0, b5 = 0, b6 = 0, pink_output = output\<rparr>"

definition pink_body :: "(nat \<Rightarrow> real) \<Rightarrow> nat \<Rightarrow> pink_vars \<Rightarrow> pink_vars" where
  "pink_body random i v =
     (let white = random i * 2 - 1;
          n0 = 0.99886 * b0 v + white * 0.0555179;
          n1 = 0.99332 * b1 v + white * 0.0750759;
          n2 = 0.96900 * b2 v + white * 0.1538520;
          n3 = 0.86650 * b3 v + white * 0.3104856;
          n4 = 0.55000 * b4 v + white * 0.5329522;
          n5 = - 0.7616 * b5 v - white * 0.0168980;
          out1 = (pink_output v)[i := n0 + n1 + n2 + n3 + n4 + n5 + b6 v + white * 0.5362];
          out2 = out1[i := out1 ! i * 0.11]
      in \<lparr>b0 = n0, b1 = n1, b2 = n2, b3 = n3, b4 = n4, b5 = n5,
          b6 = white * 0.115926, pink_output = out2\<rparr>)"

record brown_vars =
  lastOut :: real
  brown_output :: "real list"

definition brown_init :: "real list \<Rightarrow> brown_vars" where
  "brown_init output = \<lparr>lastOut = 0, brown_output = output\<rparr>"

definition brown_body :: "(nat \<Rightarrow> real) \<Rightarrow> nat \<Rightarrow> brown_vars \<Rightarrow> brown_vars" where
  "brown_body random i v =
     (let white = random i * 2 - 1;
          out1 = (brown_output v)[i := (lastOut v + (0.02 * white)) / 1.02];
          last = out1 ! i;
          out2 = out1[i := out1 ! i * 3.5]
      in \<lparr>lastOut = last, brown_output = out2\<rparr>)"

text \<open>
  \<open>ctx.createBuffer(1, bufferSize, ctx.sampleRate)\<close> gives one channel of \<open>bufferSize\<close>
  zeros; \<open>getChannelData(0)\<close> is that array, written in place by the loops.
\<close>

definition createNoiseBuffer :: "AudioContext \<Rightarrow> NoiseColor \<Rightarrow> (nat \<Rightarrow> real) \<Rightarrow> real list" where
  "createNoiseBuffer ctx type random =
     (let bufferSize = sampleRate ctx * 5;
          output = replicate bufferSize 0
      in case type of
           WHITE \<Rightarrow> for_loop bufferSize (white_body random) output
         | PINK \<Rightarrow> pink_output (for_loop bufferSize (pink_body random) (pink_init output))
         | BROWN \<Rightarrow> brown_output (for_loop bufferSize (brown_body random) (brown_init output)))"


section \<open>The audio graph and the hook (useNoiseAudio in src/hooks/useNoiseAudio.ts)\<close>

text \<open>
  The Web Audio objects are the platform's. The model records, in order, every call the
  hook makes on them, and takes what the hook reads from them during one render
  (\<open>ctx.currentTime\<close>, \<open>ctx.state\<close>, \<open>gain.gain.value\<close>) as an observation.
\<close>

datatype ContextState = Suspended | Running | Closed

record Platform =
  currentTime :: real
  ctxState :: ContextState
  gainValue :: real

datatype GraphCall =
    CreateGain
  | CreateBiquadFilter
  | CreateAnalyser
  | SetFilterType string
  | SetFftSize nat
  | FilterConnectGain
  | GainConnectAnalyser
  | AnalyserConnectDestination
  | SourceStop
  | SourceDisconnect
  | CtxResume
  | CreateBufferSource
  | SourceSetBuffer NoiseColor
  | SourceSetLoop bool
  | SourceConnectFilter
  | SourceStart
  | GainCancelScheduledValues real
  | GainSetValueAtTime real real
  | GainLinearRampToValueAtTime real real
  | GainSetTargetAtTime real real real
  | FrequencySetTargetAtTime real real real
  | QSetTargetAtTime real real real

datatype GainNode = GainNode
datatype BiquadFilterNode = BiquadFilterNode
datatype AnalyserNode = AnalyserNode

text \<open>
  The refs of the hook; \<open>null\<close> is \<open>None\<close>. A source node is identified by the colour
  whose buffer it plays. \<open>calls\<close> is the trace of calls made on the graph so far.
\<close>

record Engine =
  audioCtxRef :: "AudioContext option"
  sourceNodeRef :: "NoiseColor option"
  gainNodeRef :: "GainNode option"
  filterNodeRef :: "BiquadFilterNode option"
  analyserNodeRef :: "AnalyserNode option"
  buffersRef :: "NoiseColor \<Rightarrow> real list option"
  calls :: "GraphCall list"

definition initialRefs :: Engine where
  "initialRefs =
     \<lparr>audioCtxRef = None, sourceNodeRef = None, gainNodeRef = None, filterNodeRef = None,
      analyserNodeRef = None, buffersRef = (\<lambda>color. None), calls = []\<rparr>"

text \<open>
  \<open>Object.values(NoiseColor).forEach\<close> visits the colours in declaration order; each
  buffer consumes the next \<open>bufferSize\<close> draws of \<open>Math.random()\<close>.
\<close>

definition generateBuffer ::
  "AudioContext \<Rightarrow> (nat \<Rightarrow> real) \<Rightarrow> NoiseColor \<Rightarrow>
     (NoiseColor \<Rightarrow> real list option) \<times> nat \<Rightarrow> (NoiseColor \<Rightarrow> real list option) \<times> nat" where
  "generateBuffer ctx random color acc =
     (case acc of (buffers, used) \<Rightarrow>
        (buffers(color := Some (createNoiseBuffer ctx color (\<lambda>i. random (used + i)))),
         used + sampleRate ctx * 5))"

text \<open>
  The first effect (dependencies \<open>[]\<close>: it runs once, on mount). \<open>AudioContextClass\<close> is
  \<open>window.AudioContext || window.webkitAudioContext\<close>: \<open>None\<close> when the browser has
  neither, otherwise the context that \<open>new AudioContextClass()\<close> creates.
\<close>

definition initEffect :: "AudioContext option \<Rightarrow> (nat \<Rightarrow> real) \<Rightarrow> Engine \<Rightarrow> Engine" where
  "initEffect AudioContextClass random e =
     (case AudioContextClass of
        None \<Rightarrow> e
      | Some ctx \<Rightarrow>
          e\<lparr>audioCtxRef := Some ctx,
            gainNodeRef := Some GainNode,
            filterNodeRef := Some BiquadFilterNode,
            analyserNodeRef := Some AnalyserNode,
            buffersRef := fst (fold (generateBuffer ctx random) [WHITE, PINK, BROWN]
                                 (buffersRef e, 0)),
            calls := calls e @
              [CreateGain, CreateBiquadFilter, CreateAnalyser, SetFilterType ''lowpass'',
               SetFftSize 2048, FilterConnectGain, GainConnectAnalyser,
               AnalyserConnectDestination]\<rparr>)"

text \<open>The second effect, "Handle Play/Stop and Color Change".\<close>

definition stopExistingSource :: "Engine \<Rightarrow> Engine" where
  "stopExistingSource e =
     (if sourceNodeRef e = None then e
      else e\<lparr>sourceNodeRef := None, calls := calls e @ [SourceStop, SourceDisconnect]\<rparr>)"

definition playEffect :: "AudioState \<Rightarrow> Platform \<Rightarrow> Engine \<Rightarrow> Engine" where
  "playEffect state p e =
     (if audioCtxRef e = None \<or> gainNodeRef e = None \<or> filterNodeRef e = None then e
      else
        let e1 = stopExistingSource e in
        if isPlaying state then
          let e2 = (if ctxState p = Suspended then e1\<lparr>calls := calls e1 @ [CtxResume]\<rparr>
                    else e1)
          in case buffersRef e2 (noiseColor state) of
               None \<Rightarrow> e2
             | Some buffer \<Rightarrow>
                 e2\<lparr>sourceNodeRef := Some (noiseColor state),
                    calls := calls e2 @
                      [CreateBufferSource, SourceSetBuffer (noiseColor state),
                       SourceSetLoop True, SourceConnectFilter, SourceStart,
                       GainCancelScheduledValues (currentTime p),
                       GainSetValueAtTime 0 (currentTime p),
                       GainLinearRampToValueAtTime (volume state) (currentTime p + 0.1)]\<rparr>
        else
          e1\<lparr>calls := calls e1 @
               [GainCancelScheduledValues (currentTime p),
                GainSetValueAtTime (gainValue p) (currentTime p),
                GainLinearRampToValueAtTime 0 (currentTime p + 0.1)]\<rparr>)"

text \<open>The third effect, "Handle Parameter Changes (Volume, Filter) without restarting source".\<close>

definition paramEffect :: "AudioState \<Rightarrow> Platform \<Rightarrow> Engine \<Rightarrow> Engine" where
  "paramEffect state p e =
     (if audioCtxRef e = None \<or> gainNodeRef e = None \<or> filterNodeRef e = None then e
      else
        e\<lparr>calls := calls e @
             (if isPlaying state then [GainSetTargetAtTime (volume state) (currentTime p) 0.1]
              else []) @
             [FrequencySetTargetAtTime (filterFrequency state) (currentTime p) 0.1,
              QSetTargetAtTime (filterQ state) (currentTime p) 0.1]\<rparr>)"

text \<open>
  The dependency arrays of the second and third effect. React runs every effect after the
  first render, in the order of their declaration, and after a later render runs those
  whose dependency array differs from the previous render's.
\<close>

definition playDeps :: "AudioState \<Rightarrow> bool \<times> NoiseColor" where
  "playDeps state = (isPlaying state, noiseColor state)"

definition paramDeps :: "AudioState \<Rightarrow> real \<times> real \<times> real \<times> bool" where
  "paramDeps state = (volume state, filterFrequency state, filterQ state, isPlaying state)"

definition mount ::
  "AudioContext option \<Rightarrow> (nat \<Rightarrow> real) \<Rightarrow> AudioState \<Rightarrow> Platform \<Rightarrow> Engine" where
  "mount AudioContextClass random state p =
     paramEffect state p (playEffect state p (initEffect AudioContextClass random initialRefs))"

definition rerender :: "AudioState \<Rightarrow> AudioState \<Rightarrow> Platform \<Rightarrow> Engine \<Rightarrow> Engine" where
  "rerender prev state p e =
     (let e1 = (if playDeps state = playDeps prev then e else playEffect state p e)
      in if paramDeps state = paramDeps prev then e1 else paramEffect state p e1)"

text \<open>
  A run of the component after its mount: the control layer submits one AudioState after
  the other, each rendered under its own observation of the platform.
\<close>

primrec session :: "(AudioState \<times> Platform) list \<Rightarrow> AudioState \<Rightarrow> Engine \<Rightarrow> Engine" where
  "session [] prev e = e"
| "session (u # us) prev e = session us (fst u) (rerender prev (fst u) (snd u) e)"

primrec lastState :: "(AudioState \<times> Platform) list \<Rightarrow> AudioState \<Rightarrow> AudioState" where
  "lastState [] prev = prev"
| "lastState (u # us) prev = lastState us (fst u)"

text \<open>
  The hook returns \<open>analyserNodeRef.current\<close> as it is when the component renders, that
  is before the effects of that render: \<open>null\<close> on the first render.
\<close>

definition returnedAnalyser :: "Engine \<Rightarrow> AnalyserNode option" where
  "returnedAnalyser e = analyserNodeRef e"

text \<open>
  The visualizer (src/unnamed/part_000): its draw loop starts only with a canvas, an
  analyser and a 2d context; a frame then reads the analyser's byte spectrum and, while
  playing, draws one bar of height \<open>data[i] / 1.5\<close> per bin. \<open>None\<close>: the loop never
  started and no spectrum is read.
\<close>

definition visualizerFrame ::
  "bool \<Rightarrow> AnalyserNode option \<Rightarrow> bool \<Rightarrow> nat list \<Rightarrow> real list option" where
  "visualizerFrame canvas analyser playing dataArray =
     (if canvas \<and> analyser \<noteq> None
      then Some (if playing then map (\<lambda>d. real d / 1.5) dataArray else [])
      else None)"

section \<open>Definitions used to state the properties\<close>

subsection \<open>Noise buffers\<close>

text \<open>The white sample that iteration \<open>i\<close> of each loop computes from its draw.\<close>

definition white_of :: "(nat \<Rightarrow> real) \<Rightarrow> nat \<Rightarrow> real" where
  "white_of random i = random i * 2 - 1"

text \<open>
  A leaky integrator in the words of the specification: the state after \<open>n\<close> samples
  is a fixed-coefficient combination of the prior state and the new white sample.
\<close>

primrec pole :: "real \<Rightarrow> real \<Rightarrow> (nat \<Rightarrow> real) \<Rightarrow> nat \<Rightarrow> real" where
  "pole a c w 0 = 0"
| "pole a c w (Suc n) = a * pole a c w n + w n * c"

definition six_poles :: "(nat \<Rightarrow> real) \<Rightarrow> nat \<Rightarrow> real" where
  "six_poles w k =
     pole 0.99886 0.0555179 w k + pole 0.99332 0.0750759 w k + pole 0.96900 0.1538520 w k
     + pole 0.86650 0.3104856 w k + pole 0.55000 0.5329522 w k
     + pole (- 0.7616) (- 0.0168980) w k"

text \<open>
  The PINK sample as the specification words it: the compensation gain times the sum of
  the six pole states and a direct white component.
\<close>

definition pink_sample_spec :: "(nat \<Rightarrow> real) \<Rightarrow> nat \<Rightarrow> real" where
  "pink_sample_spec w i = (six_poles w (Suc i) + w i * 0.5362) * 0.11"

text \<open>
  What the loop's seventh variable \<open>b6\<close> holds when iteration \<open>i\<close> starts: the previous
  white sample times 0.115926, and 0 before the first iteration.
\<close>

definition delayed :: "(nat \<Rightarrow> real) \<Rightarrow> nat \<Rightarrow> real" where
  "delayed w i = (if i = 0 then 0 else w (i - 1) * 0.115926)"

definition pink_sample :: "(nat \<Rightarrow> real) \<Rightarrow> nat \<Rightarrow> real" where
  "pink_sample w i = (six_poles w (Suc i) + delayed w i + w i * 0.5362) * 0.11"

definition pink_inv :: "(nat \<Rightarrow> real) \<Rightarrow> nat \<Rightarrow> nat \<Rightarrow> pink_vars \<Rightarrow> bool" where
  "pink_inv w n k v \<longleftrightarrow>
     b0 v = pole 0.99886 0.0555179 w k \<and> b1 v = pole 0.99332 0.0750759 w k \<and>
     b2 v = pole 0.96900 0.1538520 w k \<and> b3 v = pole 0.86650 0.3104856 w k \<and>
     b4 v = pole 0.55000 0.5329522 w k \<and> b5 v = pole (- 0.7616) (- 0.0168980) w k \<and>
     b6 v = delayed w k \<and> length (pink_output v) = n \<and>
     (\<forall>j<k. pink_output v ! j = pink_sample w j)"

text \<open>The BROWN integrator state after \<open>n\<close> samples, before the compensation gain.\<close>

primrec brown_last :: "(nat \<Rightarrow> real) \<Rightarrow> nat \<Rightarrow> real" where
  "brown_last w 0 = 0"
| "brown_last w (Suc n) = (brown_last w n + 0.02 * w n) / 1.02"

definition brown_inv :: "(nat \<Rightarrow> real) \<Rightarrow> nat \<Rightarrow> nat \<Rightarrow> brown_vars \<Rightarrow> bool" where
  "brown_inv w n k v \<longleftrightarrow>
     lastOut v = brown_last w k \<and> length (brown_output v) = n \<and>
     (\<forall>j<k. brown_output v ! j = brown_last w (Suc j) * 3.5)"

text \<open>The largest magnitude a sample of each colour can have.\<close>

fun amplitude_bound :: "NoiseColor \<Rightarrow> real" where
  "amplitude_bound WHITE = 1"
| "amplitude_bound PINK = 7.61"
| "amplitude_bound BROWN = 3.5"

text \<open>
  The sample each colour's recurrence gives at index \<open>i\<close> when it is run from its
  zero state over the white samples \<open>w\<close>, and the first of them as a function of the
  first white sample alone.
\<close>

fun noise_sample :: "NoiseColor \<Rightarrow> (nat \<Rightarrow> real) \<Rightarrow> nat \<Rightarrow> real" where
  "noise_sample WHITE w i = w i"
| "noise_sample PINK w i = pink_sample w i"
| "noise_sample BROWN w i = brown_last w (Suc i) * 3.5"

fun seam_head :: "NoiseColor \<Rightarrow> real \<Rightarrow> real" where
  "seam_head WHITE w0 = w0"
| "seam_head PINK w0 = w0 * 0.181190416"
| "seam_head BROWN w0 = w0 * (7 / 102)"

text \<open>The largest step from the last sample back to the first.\<close>

fun seam_bound :: "NoiseColor \<Rightarrow> real" where
  "seam_bound WHITE = 2"
| "seam_bound PINK = 7.61 + 0.181190416"
| "seam_bound BROWN = 3.5 + 7 / 102"

subsection \<open>The hook\<close>

definition newCalls :: "Engine \<Rightarrow> Engine \<Rightarrow> GraphCall list" where
  "newCalls e e' = drop (length (calls e)) (calls e')"

text \<open>
  The documented domains (src/types.ts and the specification): volume in \<open>[0, 1]\<close>,
  filter frequency in \<open>[20, 20000]\<close>, resonance positive.
\<close>

fun inDomain :: "GraphCall \<Rightarrow> bool" where
  "inDomain (GainSetValueAtTime v t) = (0 \<le> v \<and> v \<le> 1)"
| "inDomain (GainLinearRampToValueAtTime v t) = (0 \<le> v \<and> v \<le> 1)"
| "inDomain (GainSetTargetAtTime v t c) = (0 \<le> v \<and> v \<le> 1)"
| "inDomain (FrequencySetTargetAtTime v t c) = (20 \<le> v \<and> v \<le> 20000)"
| "inDomain (QSetTargetAtTime v t c) = (0 < v)"
| "inDomain _ = True"

fun isTargetCall :: "GraphCall \<Rightarrow> bool" where
  "isTargetCall (GainSetTargetAtTime v t c) = True"
| "isTargetCall (FrequencySetTargetAtTime v t c) = True"
| "isTargetCall (QSetTargetAtTime v t c) = True"
| "isTargetCall _ = False"

definition extends :: "Engine \<Rightarrow> Engine \<Rightarrow> bool" where
  "extends e e' \<longleftrightarrow> (\<exists>cs. calls e' = calls e @ cs \<and> list_all inDomain cs)"

definition ready :: "Engine \<Rightarrow> bool" where
  "ready e \<longleftrightarrow> audioCtxRef e \<noteq> None \<and> gainNodeRef e \<noteq> None \<and> filterNodeRef e \<noteq> None \<and>
     buffersRef e WHITE \<noteq> None \<and> buffersRef e PINK \<noteq> None \<and> buffersRef e BROWN \<noteq> None"

text \<open>
  What holds of the refs after every render of a component whose mount found an
  AudioContext, \<open>s\<close> being the AudioState rendered last.
\<close>

definition engine_inv :: "AudioState \<Rightarrow> Engine \<Rightarrow> bool" where
  "engine_inv s e \<longleftrightarrow> ready e \<and>
     sourceNodeRef e = (if isPlaying s then Some (noiseColor s) else None)"

definition detachCalls :: "Engine \<Rightarrow> GraphCall list" where
  "detachCalls e = (if sourceNodeRef e = None then [] else [SourceStop, SourceDisconnect])"

definition attachCalls :: "AudioState \<Rightarrow> Platform \<Rightarrow> GraphCall list" where
  "attachCalls state p =
     (if ctxState p = Suspended then [CtxResume] else []) @
     [CreateBufferSource, SourceSetBuffer (noiseColor state), SourceSetLoop True,
      SourceConnectFilter, SourceStart,
      GainCancelScheduledValues (currentTime p), GainSetValueAtTime 0 (currentTime p),
      GainLinearRampToValueAtTime (volume state) (currentTime p + 0.1)]"

definition rampDownCalls :: "Platform \<Rightarrow> GraphCall list" where
  "rampDownCalls p =
     [GainCancelScheduledValues (currentTime p), GainSetValueAtTime (gainValue p) (currentTime p),
      GainLinearRampToValueAtTime 0 (currentTime p + 0.1)]"

definition paramCalls :: "AudioState \<Rightarrow> Platform \<Rightarrow> GraphCall list" where
  "paramCalls state p =
     (if isPlaying state then [GainSetTargetAtTime (volume state) (currentTime p) 0.1] else []) @
     [FrequencySetTargetAtTime (filterFrequency state) (currentTime p) 0.1,
      QSetTargetAtTime (filterQ state) (currentTime p) 0.1]"

subsection \<open>Concrete inputs\<close>

definition ctx44100 :: AudioContext where
  "ctx44100 = \<lparr>sampleRate = 44100\<rparr>"

text \<open>Streams of draws: always 0, 0 then one half, 0 then 0.999.\<close>

definition lowest_draws :: "nat \<Rightarrow> real" where
  "lowest_draws i = 0"

definition pulse_draws :: "nat \<Rightarrow> real" where
  "pulse_draws i = (if i = 0 then 0 else 1 / 2)"

definition seam_draws :: "nat \<Rightarrow> real" where
  "seam_draws i = (if i = 0 then 0 else 999 / 1000)"

text \<open>The state src/App.tsx starts with, and states its handlers derive from it.\<close>

definition appInitialState :: AudioState where
  "appInitialState =
     \<lparr>isPlaying = False, volume = 0.5, noiseColor = PINK, filterFrequency = 5000, filterQ = 1\<rparr>"

definition playingPink :: AudioState where
  "playingPink = appInitialState\<lparr>isPlaying := True\<rparr>"

definition playingBrown :: AudioState where
  "playingBrown = playingPink\<lparr>noiseColor := BROWN\<rparr>"

definition stoppedPink :: AudioState where
  "stoppedPink = playingPink\<lparr>isPlaying := False\<rparr>"

definition quieterPink :: AudioState where
  "quieterPink = playingPink\<lparr>volume := 0.25\<rparr>"

definition outOfRangeState :: AudioState where
  "outOfRangeState =
     \<lparr>isPlaying = True, volume = 2, noiseColor = WHITE, filterFrequency = 50000, filterQ = - 1\<rparr>"

definition atMount :: Platform where
  "atMount = \<lparr>currentTime = 0, ctxState = Suspended, gainValue = 1\<rparr>"

definition atPlay :: Platform where
  "atPlay = \<lparr>currentTime = 1, ctxState = Suspended, gainValue = 1\<rparr>"

definition atChange :: Platform where
  "atChange = \<lparr>currentTime = 5, ctxState = Running, gainValue = 0.5\<rparr>"

definition atStop :: Platform where
  "atStop = \<lparr>currentTime = 9, ctxState = Running, gainValue = 0.5\<rparr>"

text \<open>The engine after the mount with the initial state and one press of play.\<close>

definition playingPinkEngine :: Engine where
  "playingPinkEngine =
     session [(playingPink, atPlay)] appInitialState
       (mount (Some ctx44100) lowest_draws appInitialState atMount)"

section \<open>Noise buffers: what the loops compute\<close>

lemma white_loop_state:
  "k \<le> n \<Longrightarrow> length (for_loop k (white_body random) (replicate n 0)) = n \<and>
     (\<forall>j<k. for_loop k (white_body random) (replicate n 0) ! j = white_of random j)"
proof (induction k)
  case 0 show ?case by simp
next
  case (Suc k)
  then show ?case
    by (auto simp: white_body_def white_of_def nth_list_update less_Suc_eq)
qed

lemma pink_body_vars:
  "b0 (pink_body random i v) = 0.99886 * b0 v + white_of random i * 0.0555179"
  "b1 (pink_body random i v) = 0.99332 * b1 v + white_of random i * 0.0750759"
  "b2 (pink_body random i v) = 0.96900 * b2 v + white_of random i * 0.1538520"
  "b3 (pink_body random i v) = 0.86650 * b3 v + white_of random i * 0.3104856"
  "b4 (pink_body random i v) = 0.55000 * b4 v + white_of random i * 0.5329522"
  "b5 (pink_body random i v) = - 0.7616 * b5 v + white_of random i * (- 0.0168980)"
  "b6 (pink_body random i v) = white_of random i * 0.115926"
  by (simp_all add: pink_body_def Let_def flip: white_of_def)

lemma pink_body_length:
  "length (pink_output (pink_body random i v)) = length (pink_output v)"
  by (simp add: pink_body_def Let_def)

lemma pink_body_nth:
  assumes "i < length (pink_output v)"
  shows "pink_output (pink_body random i v) ! j =
     (if j = i
      then (b0 (pink_body random i v) + b1 (pink_body random i v) + b2 (pink_body random i v)
            + b3 (pink_body random i v) + b4 (pink_body random i v) + b5 (pink_body random i v)
            + b6 v + white_of random i * 0.5362) * 0.11
      else pink_output v ! j)"
  using assms by (simp add: pink_body_def Let_def nth_list_update flip: white_of_def)

lemma pink_inv_step:
  assumes "k < n" "pink_inv (white_of random) n k v"
  shows "pink_inv (white_of random) n (Suc k) (pink_body random k v)"
proof -
  from assms have len: "k < length (pink_output v)"
    by (simp add: pink_inv_def)
  have old: "\<And>j. j < k \<Longrightarrow> pink_output v ! j = pink_sample (white_of random) j"
    using assms by (simp add: pink_inv_def)
  have new: "pink_output (pink_body random k v) ! k = pink_sample (white_of random) k"
    using assms(2) unfolding pink_body_nth[OF len] pink_body_vars pink_sample_def six_poles_def
      pink_inv_def pole.simps by simp
  have "pink_output (pink_body random k v) ! j = pink_sample (white_of random) j"
    if "j < Suc k" for j
  proof (cases "j = k")
    case True then show ?thesis using new by simp
  next
    case False
    with that have "j < k" by simp
    then show ?thesis using old False by (simp add: pink_body_nth[OF len])
  qed
  moreover have "b6 (pink_body random k v) = delayed (white_of random) (Suc k)"
    by (simp add: pink_body_vars delayed_def)
  ultimately show ?thesis
    using assms(2) unfolding pink_inv_def pink_body_vars pink_body_length pole.simps
    by simp
qed

lemma pink_loop_state:
  "k \<le> n \<Longrightarrow> pink_inv (white_of random) n k
     (for_loop k (pink_body random) (pink_init (replicate n 0)))"
proof (induction k)
  case 0 show ?case by (simp add: pink_inv_def pink_init_def delayed_def)
next
  case (Suc k)
  then show ?case using pink_inv_step[of k n random] by simp
qed

lemma brown_body_vars:
  assumes "i < length (brown_output v)"
  shows "lastOut (brown_body random i v) = (lastOut v + 0.02 * white_of random i) / 1.02"
    and "length (brown_output (brown_body random i v)) = length (brown_output v)"
    and "brown_output (brown_body random i v) ! j =
          (if j = i then lastOut (brown_body random i v) * 3.5 else brown_output v ! j)"
  using assms by (simp_all add: brown_body_def Let_def nth_list_update flip: white_of_def)

lemma brown_inv_step:
  assumes "k < n" "brown_inv (white_of random) n k v"
  shows "brown_inv (white_of random) n (Suc k) (brown_body random k v)"
proof -
  from assms have len: "k < length (brown_output v)"
    by (simp add: brown_inv_def)
  show ?thesis
    using assms(2) unfolding brown_inv_def brown_body_vars[OF len] brown_last.simps
    by (auto simp: less_Suc_eq)
qed

lemma brown_loop_state:
  "k \<le> n \<Longrightarrow> brown_inv (white_of random) n k
     (for_loop k (brown_body random) (brown_init (replicate n 0)))"
proof (induction k)
  case 0 show ?case by (simp add: brown_inv_def brown_init_def)
next
  case (Suc k)
  then show ?case using brown_inv_step[of k n random] by simp
qed

lemma createNoiseBuffer_length: "length (createNoiseBuffer ctx type random) = sampleRate ctx * 5"
proof (cases type)
  case WHITE
  then show ?thesis using white_loop_state[of "sampleRate ctx * 5" "sampleRate ctx * 5" random]
    by (simp add: createNoiseBuffer_def Let_def)
next
  case PINK
  then show ?thesis using pink_loop_state[of "sampleRate ctx * 5" "sampleRate ctx * 5" random]
    by (simp add: createNoiseBuffer_def Let_def pink_inv_def)
next
  case BROWN
  then show ?thesis using brown_loop_state[of "sampleRate ctx * 5" "sampleRate ctx * 5" random]
    by (simp add: createNoiseBuffer_def Let_def brown_inv_def)
qed

lemma white_nth:
  "i < sampleRate ctx * 5 \<Longrightarrow> createNoiseBuffer ctx WHITE random ! i = white_of random i"
  using white_loop_state[of "sampleRate ctx * 5" "sampleRate ctx * 5" random]
  by (simp add: createNoiseBuffer_def Let_def)

lemma pink_nth:
  "i < sampleRate ctx * 5 \<Longrightarrow>
     createNoiseBuffer ctx PINK random ! i = pink_sample (white_of random) i"
  using pink_loop_state[of "sampleRate ctx * 5" "sampleRate ctx * 5" random]
  by (simp add: createNoiseBuffer_def Let_def pink_inv_def)

lemma brown_nth:
  "i < sampleRate ctx * 5 \<Longrightarrow>
     createNoiseBuffer ctx BROWN random ! i = brown_last (white_of random) (Suc i) * 3.5"
  using brown_loop_state[of "sampleRate ctx * 5" "sampleRate ctx * 5" random]
  by (simp add: createNoiseBuffer_def Let_def brown_inv_def)

lemma white_of_range: "0 \<le> random i \<Longrightarrow> random i \<le> 1 \<Longrightarrow> \<bar>white_of random i\<bar> \<le> 1"
  by (simp add: white_of_def abs_le_iff)

lemma pole_bound:
  assumes w: "\<And>i. \<bar>w i\<bar> \<le> 1" and m: "\<bar>a\<bar> * m + \<bar>c\<bar> \<le> m" "0 \<le> m"
  shows "\<bar>pole a c w k\<bar> \<le> m"
proof (induction k)
  case 0 show ?case using m by simp
next
  case (Suc k)
  have "\<bar>pole a c w (Suc k)\<bar> \<le> \<bar>a\<bar> * \<bar>pole a c w k\<bar> + \<bar>w k\<bar> * \<bar>c\<bar>"
    by (simp add: abs_mult[symmetric]) 
  also have "\<dots> \<le> \<bar>a\<bar> * m + 1 * \<bar>c\<bar>"
    using Suc w[of k] by (intro add_mono mult_left_mono mult_right_mono) simp_all
  also have "\<dots> \<le> m" using m by simp
  finally show ?case .
qed

lemma abs_div_le_one:
  fixes y c :: real
  assumes "\<bar>y\<bar> \<le> c" "0 < c"
  shows "\<bar>y / c\<bar> \<le> 1"
  using assms by (simp add: abs_divide divide_le_eq)

lemma abs_scale_le:
  fixes x m c :: real
  assumes "\<bar>x\<bar> \<le> m" "0 \<le> c"
  shows "\<bar>x * c\<bar> \<le> m * c"
  using assms by (simp add: abs_mult mult_right_mono)

lemma brown_last_bound:
  assumes w: "\<And>i. \<bar>w i\<bar> \<le> 1"
  shows "\<bar>brown_last w k\<bar> \<le> 1"
proof (induction k)
  case 0 show ?case by simp
next
  case (Suc k)
  have "\<bar>brown_last w k + 0.02 * w k\<bar> \<le> \<bar>brown_last w k\<bar> + \<bar>0.02 * w k\<bar>"
    by (rule abs_triangle_ineq)
  also have "\<dots> = \<bar>brown_last w k\<bar> + 0.02 * \<bar>w k\<bar>"
    by (simp add: abs_mult)
  also have "\<dots> \<le> 1.02" using Suc w[of k] by simp
  finally have "\<bar>(brown_last w k + 0.02 * w k) / 1.02\<bar> \<le> 1"
    by (rule abs_div_le_one) simp
  then show ?case unfolding brown_last.simps .
qed

lemma abs_add_le:
  fixes a b :: real
  assumes "\<bar>a\<bar> \<le> ma" "\<bar>b\<bar> \<le> mb"
  shows "\<bar>a + b\<bar> \<le> ma + mb"
  using abs_triangle_ineq[of a b] assms by simp

lemma abs_sum8:
  fixes a :: real
  assumes "\<bar>a\<bar> \<le> ma" "\<bar>b\<bar> \<le> mb" "\<bar>c\<bar> \<le> mc" "\<bar>d\<bar> \<le> md"
    "\<bar>e\<bar> \<le> me" "\<bar>f\<bar> \<le> mf" "\<bar>g\<bar> \<le> mg" "\<bar>h\<bar> \<le> mh"
  shows "\<bar>a + b + c + d + e + f + g + h\<bar> \<le> ma + mb + mc + md + me + mf + mg + mh"
  by (intro abs_add_le assms)

lemma pink_sample_bound:
  assumes w: "\<And>i. \<bar>w i\<bar> \<le> 1"
  shows "\<bar>pink_sample w i\<bar> \<le> 7.61"
proof -
  have p0: "\<bar>pole 0.99886 0.0555179 w (Suc i)\<bar> \<le> 48.7"
    by (rule pole_bound[OF w]) simp_all
  have p1: "\<bar>pole 0.99332 0.0750759 w (Suc i)\<bar> \<le> 11.24"
    by (rule pole_bound[OF w]) simp_all
  have p2: "\<bar>pole 0.96900 0.1538520 w (Suc i)\<bar> \<le> 4.97"
    by (rule pole_bound[OF w]) simp_all
  have p3: "\<bar>pole 0.86650 0.3104856 w (Suc i)\<bar> \<le> 2.33"
    by (rule pole_bound[OF w]) simp_all
  have p4: "\<bar>pole 0.55000 0.5329522 w (Suc i)\<bar> \<le> 1.19"
    by (rule pole_bound[OF w]) simp_all
  have p5: "\<bar>pole (- 0.7616) (- 0.0168980) w (Suc i)\<bar> \<le> 0.071"
    by (rule pole_bound[OF w]) simp_all
  have d: "\<bar>delayed w i\<bar> \<le> 0.116"
    using w[of "i - 1"] by (simp add: delayed_def abs_mult)
  have x: "\<bar>w i * 0.5362\<bar> \<le> 0.5362"
    using w[of i] by (simp add: abs_mult)
  have "\<bar>six_poles w (Suc i) + delayed w i + w i * 0.5362\<bar> \<le> 69.1532"
    unfolding six_poles_def using abs_sum8[OF p0 p1 p2 p3 p4 p5 d x] by simp
  then have "\<bar>(six_poles w (Suc i) + delayed w i + w i * 0.5362) * 0.11\<bar> \<le> 69.1532 * 0.11"
    by (rule abs_scale_le) simp
  also have "\<dots> \<le> (7.61::real)" by simp
  finally show ?thesis unfolding pink_sample_def .
qed

lemma white_of_abs:
  assumes "\<forall>i. 0 \<le> random i \<and> random i \<le> 1"
  shows "\<bar>white_of random i\<bar> \<le> 1"
  using assms white_of_range[of random i] by simp

lemma sample_bound:
  assumes r: "\<forall>i. 0 \<le> random i \<and> random i \<le> 1" and i: "i < sampleRate ctx * 5"
  shows "\<bar>createNoiseBuffer ctx type random ! i\<bar> \<le> amplitude_bound type"
proof (cases type)
  case WHITE
  then show ?thesis using white_of_abs[OF r, of i] i by (simp add: white_nth)
next
  case PINK
  then show ?thesis using pink_sample_bound[of "white_of random" i] white_of_abs[OF r] i
    by (simp add: pink_nth)
next
  case BROWN
  have "\<bar>brown_last (white_of random) (Suc i) * 3.5\<bar> \<le> 1 * 3.5"
  proof (rule abs_scale_le)
    show "\<bar>brown_last (white_of random) (Suc i)\<bar> \<le> 1"
      by (rule brown_last_bound) (rule white_of_abs[OF r])
  qed simp
  then show ?thesis using BROWN i by (simp add: brown_nth)
qed

lemma pole_const: "pole a c (\<lambda>i. x) n * (1 - a) = x * c * (1 - a ^ n)"
proof (induction n)
  case 0 show ?case by simp
next
  case (Suc n)
  have "pole a c (\<lambda>i. x) (Suc n) * (1 - a)
          = a * (pole a c (\<lambda>i. x) n * (1 - a)) + x * c * (1 - a)"
    by (simp add: algebra_simps)
  also have "\<dots> = a * (x * c * (1 - a ^ n)) + x * c * (1 - a)"
    by (simp only: Suc)
  also have "\<dots> = x * c * (1 - a ^ Suc n)"
    by (simp add: algebra_simps)
  finally show ?case .
qed

lemma pole_const_div: "a \<noteq> 1 \<Longrightarrow> pole a c (\<lambda>i. x) n = x * c * (1 - a ^ n) / (1 - a)"
  using pole_const[of a c x n] by (simp add: field_simps)

lemma white_lowest: "white_of lowest_draws = (\<lambda>i. - 1)"
  by (simp add: fun_eq_iff white_of_def lowest_draws_def)

lemma pink_low_29: "pink_sample (white_of lowest_draws) 29 < - 1"
proof -
  have p0: "pole 0.99886 0.0555179 (\<lambda>i. - 1) 30 \<le> - 1.63"
    by (simp add: pole_const_div power_divide)
  have p1: "pole 0.99332 0.0750759 (\<lambda>i. - 1) 30 \<le> - 2.04"
    by (simp add: pole_const_div power_divide)
  have p2: "pole 0.96900 0.1538520 (\<lambda>i. - 1) 30 \<le> - 3.03"
    by (simp add: pole_const_div power_divide)
  have p3: "pole 0.86650 0.3104856 (\<lambda>i. - 1) 30 \<le> - 2.29"
    by (simp add: pole_const_div power_divide)
  have p4: "pole 0.55000 0.5329522 (\<lambda>i. - 1) 30 \<le> - 1.18"
    by (simp add: pole_const_div power_divide)
  have p5: "pole (- 0.7616) (- 0.0168980) (\<lambda>i. - 1) 30 \<le> 0.01"
    by (simp add: pole_const_div power_divide)
  have "six_poles (\<lambda>i. - 1) 30 \<le> - 10.16"
    unfolding six_poles_def using p0 p1 p2 p3 p4 p5 by linarith
  then show ?thesis
    unfolding white_lowest pink_sample_def delayed_def by simp
qed

lemma brown_const: "brown_last (\<lambda>i. x) n = x * (1 - (1 / 1.02) ^ n)"
  by (induction n) (simp_all add: field_simps)

lemma brown_low_29: "brown_last (white_of lowest_draws) 30 * 3.5 < - 1"
  unfolding white_lowest brown_const by (simp add: power_divide)

lemma sampleRate_ctx44100: "sampleRate ctx44100 = 44100"
  by (simp add: ctx44100_def)

lemma buffer_nth:
  "i < sampleRate ctx * 5 \<Longrightarrow>
     createNoiseBuffer ctx type random ! i = noise_sample type (white_of random) i"
  by (cases type) (simp_all add: white_nth pink_nth brown_nth)

lemma buffer_is_recurrence:
  "createNoiseBuffer ctx type random =
     map (noise_sample type (white_of random)) [0..<sampleRate ctx * 5]"
  by (rule nth_equalityI) (simp_all add: createNoiseBuffer_length buffer_nth)

lemma noise_sample_first: "noise_sample type w 0 = seam_head type (w 0)"
  by (cases type) (simp_all add: pink_sample_def six_poles_def delayed_def)

lemma seam_head_bound:
  "\<bar>w0\<bar> \<le> 1 \<Longrightarrow> \<bar>seam_head type w0\<bar> \<le> seam_bound type - amplitude_bound type"
  by (cases type) (simp_all add: abs_mult)

lemma pow_small:
  fixes a :: real
  assumes "0 < a" "a \<le> 1"
  shows "a ^ n \<le> 1 / (1 + real n * (1 / a - 1))"
proof -
  define B where "B = 1 + real n * (1 / a - 1)"
  have x: "0 \<le> 1 / a - 1" using assms by simp
  then have "- 1 \<le> 1 / a - 1" by linarith
  then have "1 + real n * (1 / a - 1) \<le> (1 + (1 / a - 1)) ^ n"
    by (rule Bernoulli_inequality)
  also have "\<dots> = 1 / a ^ n" by (simp add: power_divide)
  finally have b: "B \<le> 1 / a ^ n" by (simp add: B_def)
  have "0 \<le> real n * (1 / a - 1)"
    using x by (intro mult_nonneg_nonneg) simp_all
  then have p: "0 < B"
    unfolding B_def by linarith
  have q: "0 < a ^ n" using assms by simp
  have "a ^ n * B \<le> a ^ n * (1 / a ^ n)"
    using b q by (intro mult_left_mono) simp_all
  also have "\<dots> = 1" using assms(1) by simp
  finally have "a ^ n * B \<le> 1" .
  then have "a ^ n \<le> 1 / B"
    using p by (simp add: pos_le_divide_eq)
  then show ?thesis by (simp add: B_def)
qed

lemma pole_low:
  assumes "0 < a" "a < 1" "0 \<le> c"
  shows "pole a c (\<lambda>i. - 1) n \<le> - c * (1 - 1 / (1 + real n * (1 / a - 1))) / (1 - a)"
proof -
  have e: "a ^ n \<le> 1 / (1 + real n * (1 / a - 1))"
    using assms by (intro pow_small) simp_all
  have "pole a c (\<lambda>i. - 1) n = - c * (1 - a ^ n) / (1 - a)"
    using assms by (simp add: pole_const_div)
  also have "\<dots> \<le> - c * (1 - 1 / (1 + real n * (1 / a - 1))) / (1 - a)"
  proof -
    have "c * (1 - 1 / (1 + real n * (1 / a - 1))) \<le> c * (1 - a ^ n)"
      using e assms(3) by (intro mult_left_mono) simp_all
    then show ?thesis using assms(2) by (simp add: divide_right_mono)
  qed
  finally show ?thesis .
qed

lemma brown_low: "brown_last (\<lambda>i. - 1) n \<le> - (1 - 1 / (1 + real n * 0.02))"
proof -
  have "(1 / 1.02 :: real) ^ n \<le> 1 / (1 + real n * (1 / (1 / 1.02) - 1))"
    by (rule pow_small) simp_all
  then show ?thesis unfolding brown_const by simp
qed

lemma brown_seam: "brown_last (\<lambda>i. - 1) 220500 * 3.5 \<le> - 3.49"
proof -
  have "brown_last (\<lambda>i. - 1) 220500 \<le> - (1 - 1 / (1 + real 220500 * 0.02))"
    by (rule brown_low)
  also have "\<dots> \<le> - 0.999" by simp
  finally show ?thesis by simp
qed

lemma sum6_le:
  fixes a :: real
  assumes "a \<le> ma" "b \<le> mb" "c \<le> mc" "d \<le> md" "e \<le> me" "f \<le> mf"
  shows "a + b + c + d + e + f \<le> ma + mb + mc + md + me + mf"
  by (intro add_mono assms)

lemma pink_seam: "pink_sample (\<lambda>i. - 1) 220499 \<le> - 7.5"
proof -
  have p0: "pole 0.99886 0.0555179 (\<lambda>i. - 1) 220500 \<le> - 48.5"
    by (rule order_trans[OF pole_low]) simp_all
  have p1: "pole 0.99332 0.0750759 (\<lambda>i. - 1) 220500 \<le> - 11.2"
    by (rule order_trans[OF pole_low]) simp_all
  have p2: "pole 0.96900 0.1538520 (\<lambda>i. - 1) 220500 \<le> - 4.95"
    by (rule order_trans[OF pole_low]) simp_all
  have p3: "pole 0.86650 0.3104856 (\<lambda>i. - 1) 220500 \<le> - 2.32"
    by (rule order_trans[OF pole_low]) simp_all
  have p4: "pole 0.55000 0.5329522 (\<lambda>i. - 1) 220500 \<le> - 1.18"
    by (rule order_trans[OF pole_low]) simp_all
  have "\<bar>pole (- 0.7616) (- 0.0168980) (\<lambda>i. - 1) 220500\<bar> \<le> 0.071"
    by (rule pole_bound) simp_all
  then have p5: "pole (- 0.7616) (- 0.0168980) (\<lambda>i. - 1) 220500 \<le> 0.071"
    by simp
  have "six_poles (\<lambda>i. - 1) 220500 \<le> - 68.079"
    unfolding six_poles_def using sum6_le[OF p0 p1 p2 p3 p4 p5] by simp
  then show ?thesis
    unfolding pink_sample_def delayed_def by simp
qed

lemma last_first_44100:
  "last (createNoiseBuffer ctx44100 type random) = noise_sample type (white_of random) 220499"
  "hd (createNoiseBuffer ctx44100 type random) = seam_head type (white_of random 0)"
proof -
  let ?b = "createNoiseBuffer ctx44100 type random"
  have len: "length ?b = 220500"
    by (simp add: createNoiseBuffer_length sampleRate_ctx44100)
  then have ne: "?b \<noteq> []" by auto
  show "last ?b = noise_sample type (white_of random) 220499"
    using ne len by (simp add: last_conv_nth buffer_nth sampleRate_ctx44100)
  show "hd ?b = seam_head type (white_of random 0)"
    using ne by (simp add: hd_conv_nth buffer_nth sampleRate_ctx44100 noise_sample_first)
qed

lemma pink_sample_spec_diff: "pink_sample w i = pink_sample_spec w i + delayed w i * 0.11"
  by (simp add: pink_sample_def pink_sample_spec_def algebra_simps)

section \<open>Noise buffers: the claims\<close>

text \<open>
  C4, as amended. For every colour, sample rate and stream of draws in \<open>[0, 1]\<close> (white
  samples in \<open>[-1, 1]\<close>) the buffer has exactly \<open>5 * sampleRate\<close> samples, and every
  sample is bounded in magnitude by 1 for WHITE, by 3.5 for BROWN and by 7.61 for PINK.
  Samples are exact reals here; the rounding of the Float32Array is not modelled.
\<close>

theorem createNoiseBuffer_length_and_amplitude:
  assumes "\<forall>i. 0 \<le> random i \<and> random i \<le> 1"
  shows "length (createNoiseBuffer ctx type random) = 5 * sampleRate ctx \<and>
         (\<forall>x \<in> set (createNoiseBuffer ctx type random). \<bar>x\<bar> \<le> amplitude_bound type)"
proof -
  have "\<bar>x\<bar> \<le> amplitude_bound type" if "x \<in> set (createNoiseBuffer ctx type random)" for x
  proof -
    from that obtain i where "i < sampleRate ctx * 5" "x = createNoiseBuffer ctx type random ! i"
      by (auto simp: in_set_conv_nth createNoiseBuffer_length)
    then show ?thesis using sample_bound[OF assms] by simp
  qed
  then show ?thesis by (simp add: createNoiseBuffer_length)
qed

text \<open>The amended C4 at 44100 Hz, PINK, every draw 0: the length and the thirtieth sample.\<close>

theorem createNoiseBuffer_length_and_amplitude_witness:
  "length (createNoiseBuffer ctx44100 PINK lowest_draws) = 220500 \<and>
   \<bar>createNoiseBuffer ctx44100 PINK lowest_draws ! 29\<bar> \<le> 7.61"
proof -
  have h: "\<forall>i. 0 \<le> lowest_draws i \<and> lowest_draws i \<le> 1"
    by (simp add: lowest_draws_def)
  have "createNoiseBuffer ctx44100 PINK lowest_draws ! 29
          \<in> set (createNoiseBuffer ctx44100 PINK lowest_draws)"
    by (rule nth_mem) (simp add: createNoiseBuffer_length sampleRate_ctx44100)
  then show ?thesis
    using createNoiseBuffer_length_and_amplitude[OF h, of ctx44100 PINK]
    by (auto simp: sampleRate_ctx44100)
qed

text \<open>
  C4 as stated fails: at 44100 Hz with every draw 0 (every white sample \<open>-1\<close>), the
  thirtieth sample of the BROWN buffer (about \<open>-1.57\<close>) and of the PINK buffer (about
  \<open>-1.19\<close>) lie below \<open>-1\<close>.
\<close>

theorem pink_and_brown_samples_leave_unit_range:
  "createNoiseBuffer ctx44100 BROWN lowest_draws ! 29 < - 1 \<and>
   createNoiseBuffer ctx44100 PINK lowest_draws ! 29 < - 1"
  using brown_low_29 pink_low_29 by (simp add: brown_nth pink_nth sampleRate_ctx44100)

text \<open>
  C5, as amended. For every colour and every stream of draws in \<open>[0, 1]\<close>, the buffer is
  the colour's recurrence run once from its zero state, with no crossfade or other
  treatment of its end: the first sample is computed from the first draw alone (the white
  sample itself for WHITE, 0.181190416 times it for PINK, 7/102 times it for BROWN), the
  last sample is the recurrence's value after all draws, and the absolute difference
  between them across the wrap point is at most 2 for WHITE, 7.791190416 for PINK and
  3.5 + 7/102 for BROWN.
\<close>

theorem seam_delta_exact_and_bounded:
  assumes "\<forall>i. 0 \<le> random i \<and> random i \<le> 1" and "0 < sampleRate ctx"
  shows "createNoiseBuffer ctx type random =
           map (noise_sample type (white_of random)) [0..<sampleRate ctx * 5] \<and>
         hd (createNoiseBuffer ctx type random) = seam_head type (white_of random 0) \<and>
         last (createNoiseBuffer ctx type random) =
           noise_sample type (white_of random) (sampleRate ctx * 5 - 1) \<and>
         \<bar>last (createNoiseBuffer ctx type random) - hd (createNoiseBuffer ctx type random)\<bar>
           \<le> seam_bound type"
proof -
  let ?b = "createNoiseBuffer ctx type random"
  from assms(2) have ne: "?b \<noteq> []" "0 < sampleRate ctx * 5"
    "sampleRate ctx * 5 - 1 < sampleRate ctx * 5"
    using createNoiseBuffer_length[of ctx type random] by auto
  have l: "last ?b = noise_sample type (white_of random) (sampleRate ctx * 5 - 1)"
    using ne by (simp add: last_conv_nth createNoiseBuffer_length buffer_nth)
  have f: "hd ?b = seam_head type (white_of random 0)"
    using ne by (simp add: hd_conv_nth buffer_nth noise_sample_first)
  have "\<bar>last ?b\<bar> \<le> amplitude_bound type"
    using sample_bound[OF assms(1) ne(3), of type] ne(1)
    by (simp add: last_conv_nth createNoiseBuffer_length)
  moreover have "\<bar>hd ?b\<bar> \<le> seam_bound type - amplitude_bound type"
    unfolding f by (rule seam_head_bound) (rule white_of_abs[OF assms(1)])
  ultimately have "\<bar>last ?b - hd ?b\<bar> \<le> seam_bound type" by linarith
  then show ?thesis using l f buffer_is_recurrence[of ctx type random] by simp
qed

text \<open>The amended C5 at 44100 Hz, BROWN, every draw 0.\<close>

theorem seam_delta_exact_and_bounded_witness:
  "0 < sampleRate ctx44100 \<and>
   hd (createNoiseBuffer ctx44100 BROWN lowest_draws) = - (7 / 102) \<and>
   \<bar>last (createNoiseBuffer ctx44100 BROWN lowest_draws)
     - hd (createNoiseBuffer ctx44100 BROWN lowest_draws)\<bar> \<le> 3.5 + 7 / 102"
proof -
  have h: "\<forall>i. 0 \<le> lowest_draws i \<and> lowest_draws i \<le> 1"
    by (simp add: lowest_draws_def)
  have r: "0 < sampleRate ctx44100"
    by (simp add: sampleRate_ctx44100)
  note t = seam_delta_exact_and_bounded[OF h r, of BROWN]
  from t have a: "hd (createNoiseBuffer ctx44100 BROWN lowest_draws)
      = seam_head BROWN (white_of lowest_draws 0)"
    by blast
  from t have b: "\<bar>last (createNoiseBuffer ctx44100 BROWN lowest_draws)
     - hd (createNoiseBuffer ctx44100 BROWN lowest_draws)\<bar> \<le> seam_bound BROWN"
    by blast
  show ?thesis
    using r a b by (simp add: white_lowest)
qed

text \<open>
  C5 as stated fails for every colour, and the bounds of the amended claim are nearly
  reached. At 44100 Hz the step across the wrap point is 1.998 for WHITE (first draw 0,
  later draws 0.999), where 2 is the largest step two samples in \<open>[-1, 1]\<close> can make;
  with every draw 0 it is at least 3.4 for BROWN and at least 7.3 for PINK.
\<close>

theorem seam_delta_near_full_range:
  "\<bar>last (createNoiseBuffer ctx44100 WHITE seam_draws)
     - hd (createNoiseBuffer ctx44100 WHITE seam_draws)\<bar> = 1998 / 1000 \<and>
   3.4 \<le> \<bar>last (createNoiseBuffer ctx44100 BROWN lowest_draws)
     - hd (createNoiseBuffer ctx44100 BROWN lowest_draws)\<bar> \<and>
   7.3 \<le> \<bar>last (createNoiseBuffer ctx44100 PINK lowest_draws)
     - hd (createNoiseBuffer ctx44100 PINK lowest_draws)\<bar>"
proof -
  have w: "\<bar>last (createNoiseBuffer ctx44100 WHITE seam_draws)
     - hd (createNoiseBuffer ctx44100 WHITE seam_draws)\<bar> = 1998 / 1000"
    by (simp add: last_first_44100 white_of_def seam_draws_def)
  have b: "3.4 \<le> \<bar>last (createNoiseBuffer ctx44100 BROWN lowest_draws)
     - hd (createNoiseBuffer ctx44100 BROWN lowest_draws)\<bar>"
    unfolding last_first_44100 white_lowest using brown_seam by simp
  have p: "7.3 \<le> \<bar>last (createNoiseBuffer ctx44100 PINK lowest_draws)
     - hd (createNoiseBuffer ctx44100 PINK lowest_draws)\<bar>"
    unfolding last_first_44100 white_lowest using pink_seam by simp
  show ?thesis using w b p by blast
qed

text \<open>
  C6, as amended. Every PINK sample is the compensation gain 0.11 times the sum of the
  six pole states \<open>b0..b5\<close>, of a seventh state \<open>b6\<close> (the previous white sample times
  0.115926, 0 for the first sample) and of the direct white component \<open>white * 0.5362\<close>.
\<close>

theorem pink_sample_is_six_poles_delayed_and_direct_white:
  assumes "i < sampleRate ctx * 5"
  shows "createNoiseBuffer ctx PINK random ! i =
           (six_poles (white_of random) (Suc i) + delayed (white_of random) i
            + white_of random i * 0.5362) * 0.11"
  using pink_nth[OF assms] by (simp add: pink_sample_def)

text \<open>The amended C6 at 44100 Hz, second sample, draws 0 then one half.\<close>

theorem pink_sample_is_six_poles_delayed_and_direct_white_witness:
  "(1::nat) < sampleRate ctx44100 * 5 \<and>
   createNoiseBuffer ctx44100 PINK pulse_draws ! 1 = - 0.10670732487602"
  using pink_sample_is_six_poles_delayed_and_direct_white[of 1 ctx44100 pulse_draws]
  by (simp add: six_poles_def delayed_def white_of_def pulse_draws_def sampleRate_ctx44100)

text \<open>
  C6 as stated fails: with draws 0 then one half (white samples \<open>-1\<close> then 0), the second
  PINK sample differs from 0.11 times the six poles plus the direct white component by
  \<open>0.11 * b6 = -0.01275186\<close>.
\<close>

theorem pink_sample_has_a_seventh_state:
  "createNoiseBuffer ctx44100 PINK pulse_draws ! 1 \<noteq> pink_sample_spec (white_of pulse_draws) 1 \<and>
   createNoiseBuffer ctx44100 PINK pulse_draws ! 1
     = pink_sample_spec (white_of pulse_draws) 1 - 0.01275186"
  by (simp add: pink_nth pink_sample_spec_diff delayed_def white_of_def pulse_draws_def
      sampleRate_ctx44100)

text \<open>
  C9. In the BROWN loop \<open>lastOut\<close> starts at 0 and has magnitude at most 1 after every
  number of iterations, for every stream of draws in \<open>[0, 1]\<close> (white samples in
  \<open>[-1, 1]\<close>); so every sample of the BROWN buffer has magnitude at most 3.5.
\<close>

theorem brown_lastOut_bounded_by_one:
  assumes "\<forall>i. 0 \<le> random i \<and> random i \<le> 1" and "k \<le> sampleRate ctx * 5"
  shows "lastOut (brown_init (replicate (sampleRate ctx * 5) 0)) = 0 \<and>
         \<bar>lastOut (for_loop k (brown_body random)
             (brown_init (replicate (sampleRate ctx * 5) 0)))\<bar> \<le> 1 \<and>
         (\<forall>x \<in> set (createNoiseBuffer ctx BROWN random). \<bar>x\<bar> \<le> 3.5)"
proof -
  have w: "\<And>i. \<bar>white_of random i\<bar> \<le> 1"
    by (rule white_of_abs[OF assms(1)])
  have "lastOut (for_loop k (brown_body random) (brown_init (replicate (sampleRate ctx * 5) 0)))
          = brown_last (white_of random) k"
    using brown_loop_state[OF assms(2), of random] by (simp add: brown_inv_def)
  then have a: "\<bar>lastOut (for_loop k (brown_body random)
             (brown_init (replicate (sampleRate ctx * 5) 0)))\<bar> \<le> 1"
    using brown_last_bound[of "white_of random" k] w by simp
  have b: "\<bar>x\<bar> \<le> 3.5" if "x \<in> set (createNoiseBuffer ctx BROWN random)" for x
  proof -
    from that obtain i where "i < sampleRate ctx * 5" "x = createNoiseBuffer ctx BROWN random ! i"
      by (auto simp: in_set_conv_nth createNoiseBuffer_length)
    then show ?thesis using sample_bound[OF assms(1), of i ctx BROWN] by simp
  qed
  show ?thesis using a b by (simp add: brown_init_def)
qed

text \<open>C9 at 44100 Hz with every draw 0: after two iterations, and the thirtieth sample.\<close>

theorem brown_lastOut_bounded_by_one_witness:
  "(2::nat) \<le> sampleRate ctx44100 * 5 \<and>
   \<bar>lastOut (for_loop 2 (brown_body lowest_draws)
       (brown_init (replicate (sampleRate ctx44100 * 5) 0)))\<bar> \<le> 1 \<and>
   \<bar>createNoiseBuffer ctx44100 BROWN lowest_draws ! 29\<bar> \<le> 3.5"
proof -
  have h: "\<forall>i. 0 \<le> lowest_draws i \<and> lowest_draws i \<le> 1"
    by (simp add: lowest_draws_def)
  have k: "(2::nat) \<le> sampleRate ctx44100 * 5"
    by (simp add: sampleRate_ctx44100)
  have "createNoiseBuffer ctx44100 BROWN lowest_draws ! 29
          \<in> set (createNoiseBuffer ctx44100 BROWN lowest_draws)"
    by (rule nth_mem) (simp add: createNoiseBuffer_length sampleRate_ctx44100)
  then show ?thesis
    using k brown_lastOut_bounded_by_one[OF h k] by auto
qed

section \<open>The hook: what the effects do\<close>

lemma buffer_cases: "ready e \<Longrightarrow> buffersRef e c \<noteq> None"
  by (cases c) (simp_all add: ready_def)

lemma stopExistingSource_eq:
  "stopExistingSource e = e\<lparr>sourceNodeRef := None, calls := calls e @ detachCalls e\<rparr>"
  by (simp add: stopExistingSource_def detachCalls_def)

lemma playEffect_ready:
  assumes "ready e"
  shows "playEffect state p e =
     e\<lparr>sourceNodeRef := (if isPlaying state then Some (noiseColor state) else None),
       calls := calls e @ detachCalls e @
         (if isPlaying state then attachCalls state p else rampDownCalls p)\<rparr>"
proof -
  from assms obtain buffer where b: "buffersRef e (noiseColor state) = Some buffer"
    using buffer_cases[of e "noiseColor state"] by auto
  from assms have r: "audioCtxRef e \<noteq> None" "gainNodeRef e \<noteq> None" "filterNodeRef e \<noteq> None"
    by (simp_all add: ready_def)
  show ?thesis
    using b r
    by (auto simp: playEffect_def stopExistingSource_eq attachCalls_def rampDownCalls_def Let_def)
qed

lemma paramEffect_ready:
  assumes "ready e"
  shows "paramEffect state p e = e\<lparr>calls := calls e @ paramCalls state p\<rparr>"
  using assms by (auto simp: paramEffect_def paramCalls_def ready_def)

lemma ready_calls_update [simp]: "ready (e\<lparr>calls := cs\<rparr>) = ready e"
  by (simp add: ready_def)

lemma ready_source_update [simp]: "ready (e\<lparr>sourceNodeRef := x\<rparr>) = ready e"
  by (simp add: ready_def)

lemma initEffect_ready: "ready (initEffect (Some ctx) random initialRefs)"
  by (simp add: ready_def initEffect_def initialRefs_def generateBuffer_def)

lemma initEffect_fields:
  "sourceNodeRef (initEffect cls random initialRefs) = None"
  "calls (initEffect None random initialRefs) = []"
  "calls (initEffect (Some ctx) random initialRefs) =
     [CreateGain, CreateBiquadFilter, CreateAnalyser, SetFilterType ''lowpass'',
      SetFftSize 2048, FilterConnectGain, GainConnectAnalyser, AnalyserConnectDestination]"
  by (simp_all add: initEffect_def initialRefs_def split: option.splits)

lemma mount_inv: "engine_inv s (mount (Some ctx) random s p)"
  by (simp add: mount_def engine_inv_def playEffect_ready paramEffect_ready initEffect_ready
      initEffect_fields)

lemma rerender_ready:
  assumes "ready e"
  shows "rerender s s' p e =
     (let e1 = (if playDeps s' = playDeps s then e
                else e\<lparr>sourceNodeRef := (if isPlaying s' then Some (noiseColor s') else None),
                       calls := calls e @ detachCalls e @
                         (if isPlaying s' then attachCalls s' p else rampDownCalls p)\<rparr>)
      in if paramDeps s' = paramDeps s then e1 else e1\<lparr>calls := calls e1 @ paramCalls s' p\<rparr>)"
  using assms by (simp add: rerender_def Let_def playEffect_ready paramEffect_ready)

lemma rerender_inv:
  assumes "engine_inv s e"
  shows "engine_inv s' (rerender s s' p e)"
proof -
  from assms have r: "ready e" by (simp add: engine_inv_def)
  show ?thesis
    using assms unfolding rerender_ready[OF r]
    by (auto simp: engine_inv_def Let_def playDeps_def)
qed

lemma session_inv:
  "engine_inv s e \<Longrightarrow> engine_inv (lastState us s) (session us s e)"
proof (induction us arbitrary: s e)
  case Nil then show ?case by simp
next
  case (Cons u us)
  then show ?case using rerender_inv[of s e "fst u" "snd u"] by simp
qed

lemma reachable_inv:
  "engine_inv (lastState us s0) (session us s0 (mount (Some ctx) random s0 p0))"
  by (rule session_inv) (rule mount_inv)

lemma newCalls_append [simp]: "newCalls e (e'\<lparr>calls := calls e @ cs\<rparr>) = cs"
  by (simp add: newCalls_def)

lemma newCalls_self [simp]: "newCalls e e = []"
  by (simp add: newCalls_def)

lemma extends_refl: "extends e e"
  by (simp add: extends_def)

lemma extends_trans: "extends e e1 \<Longrightarrow> extends e1 e2 \<Longrightarrow> extends e e2"
  by (auto simp: extends_def)

lemma extends_newCalls: "extends e e' \<Longrightarrow> list_all inDomain (newCalls e e')"
  by (auto simp: extends_def newCalls_def)

lemma extends_Nil: "calls e = [] \<Longrightarrow> extends e e' \<Longrightarrow> list_all inDomain (calls e')"
  by (auto simp: extends_def)

lemma initEffect_extends: "extends e (initEffect cls random e)"
  by (simp add: extends_def initEffect_def split: option.splits)

lemma playEffect_extends:
  assumes "0 \<le> volume state" "volume state \<le> 1" "0 \<le> gainValue p" "gainValue p \<le> 1"
  shows "extends e (playEffect state p e)"
  using assms
  by (simp add: extends_def playEffect_def stopExistingSource_def Let_def split: option.splits)

lemma paramEffect_extends:
  assumes "0 \<le> volume state" "volume state \<le> 1" "20 \<le> filterFrequency state"
    "filterFrequency state \<le> 20000" "0 < filterQ state"
  shows "extends e (paramEffect state p e)"
  using assms by (simp add: extends_def paramEffect_def)

lemma rerender_extends:
  assumes "0 \<le> volume state" "volume state \<le> 1" "20 \<le> filterFrequency state"
    "filterFrequency state \<le> 20000" "0 < filterQ state" "0 \<le> gainValue p" "gainValue p \<le> 1"
  shows "extends e (rerender prev state p e)"
  unfolding rerender_def Let_def
  using assms
  by (auto intro: extends_refl extends_trans playEffect_extends paramEffect_extends)

lemma mount_extends:
  assumes "0 \<le> volume state" "volume state \<le> 1" "20 \<le> filterFrequency state"
    "filterFrequency state \<le> 20000" "0 < filterQ state" "0 \<le> gainValue p" "gainValue p \<le> 1"
  shows "extends initialRefs (mount cls random state p)"
  unfolding mount_def
  using assms
  by (blast intro: extends_trans initEffect_extends playEffect_extends paramEffect_extends)

lemma mount_ready_calls:
  "calls (mount (Some ctx) random s p) =
     [CreateGain, CreateBiquadFilter, CreateAnalyser, SetFilterType ''lowpass'',
      SetFftSize 2048, FilterConnectGain, GainConnectAnalyser, AnalyserConnectDestination] @
     (if isPlaying s then attachCalls s p else rampDownCalls p) @ paramCalls s p"
  by (simp add: mount_def playEffect_ready paramEffect_ready initEffect_ready initEffect_fields
      detachCalls_def)

lemma playingPinkEngine_inv: "engine_inv playingPink playingPinkEngine"
  using reachable_inv[of "[(playingPink, atPlay)]" appInitialState ctx44100 lowest_draws atMount]
  by (simp add: playingPinkEngine_def)

lemma rerender_newCalls:
  assumes "engine_inv s e"
  shows "newCalls e (rerender s s' p e) =
     (if playDeps s' = playDeps s then []
      else (if isPlaying s then [SourceStop, SourceDisconnect] else []) @
           (if isPlaying s' then attachCalls s' p else rampDownCalls p)) @
     (if paramDeps s' = paramDeps s then [] else paramCalls s' p)"
proof -
  from assms have r: "ready e" by (simp add: engine_inv_def)
  show ?thesis
    using assms unfolding rerender_ready[OF r]
    by (simp add: Let_def engine_inv_def detachCalls_def newCalls_def)
qed

lemma rerender_source:
  assumes "engine_inv s e"
  shows "sourceNodeRef (rerender s s' p e) = (if isPlaying s' then Some (noiseColor s') else None)"
  using rerender_inv[OF assms, of s' p] by (simp add: engine_inv_def)

lemma rerender_unsupported:
  "audioCtxRef e = None \<Longrightarrow> rerender prev state p e = e"
  by (simp add: rerender_def playEffect_def paramEffect_def)

lemma session_unsupported:
  "audioCtxRef e = None \<Longrightarrow> session us prev e = e"
  by (induction us arbitrary: prev e) (simp_all add: rerender_unsupported)

lemma mount_unsupported: "mount None random state p = initialRefs"
  by (simp add: mount_def initEffect_def playEffect_def paramEffect_def initialRefs_def)

text \<open>
  Every render that takes \<open>isPlaying\<close> from true to false stops and disconnects the
  source first and schedules the ramp to 0 afterwards.
\<close>

lemma stop_trace:
  assumes "isPlaying (lastState us s0)" and "\<not> isPlaying s'"
  shows "let s = lastState us s0;
             e = session us s0 (mount (Some ctx) random s0 p0);
             e' = rerender s s' p e
         in newCalls e e' =
              [SourceStop, SourceDisconnect, GainCancelScheduledValues (currentTime p),
               GainSetValueAtTime (gainValue p) (currentTime p),
               GainLinearRampToValueAtTime 0 (currentTime p + 0.1),
               FrequencySetTargetAtTime (filterFrequency s') (currentTime p) 0.1,
               QSetTargetAtTime (filterQ s') (currentTime p) 0.1] \<and>
            sourceNodeRef e = Some (noiseColor s) \<and> sourceNodeRef e' = None"
proof -
  have inv: "engine_inv (lastState us s0) (session us s0 (mount (Some ctx) random s0 p0))"
    by (rule reachable_inv)
  have neq: "playDeps s' \<noteq> playDeps (lastState us s0)"
    "paramDeps s' \<noteq> paramDeps (lastState us s0)"
    using assms by (auto simp: playDeps_def paramDeps_def)
  show ?thesis
    unfolding Let_def rerender_newCalls[OF inv] rerender_source[OF inv]
    using assms inv neq
    by (simp add: rampDownCalls_def paramCalls_def engine_inv_def)
qed

section \<open>The hook: the claims\<close>

text \<open>
  C1, as amended. The core forwards the submitted volume, filter frequency and resonance
  to the gain and the filter unchanged and unclamped. With an AudioContext, the mount and
  every later render make exactly the calls listed: the only values applied to the gain
  are 0, the gain's current value and the submitted volume, the only frequency target is
  the submitted \<open>filterFrequency\<close> and the only resonance target the submitted
  \<open>filterQ\<close>. So when the volume is in \<open>[0, 1]\<close>, the filter frequency in
  \<open>[20, 20000]\<close>, the resonance positive and the gain's current value in \<open>[0, 1]\<close>,
  every value applied is in its domain.
\<close>

theorem submitted_values_reach_graph_unchanged:
  "calls (mount (Some ctx) random state p) =
     [CreateGain, CreateBiquadFilter, CreateAnalyser, SetFilterType ''lowpass'',
      SetFftSize 2048, FilterConnectGain, GainConnectAnalyser, AnalyserConnectDestination] @
     (if isPlaying state
      then (if ctxState p = Suspended then [CtxResume] else []) @
           [CreateBufferSource, SourceSetBuffer (noiseColor state), SourceSetLoop True,
            SourceConnectFilter, SourceStart, GainCancelScheduledValues (currentTime p),
            GainSetValueAtTime 0 (currentTime p),
            GainLinearRampToValueAtTime (volume state) (currentTime p + 0.1),
            GainSetTargetAtTime (volume state) (currentTime p) 0.1]
      else [GainCancelScheduledValues (currentTime p),
            GainSetValueAtTime (gainValue p) (currentTime p),
            GainLinearRampToValueAtTime 0 (currentTime p + 0.1)]) @
     [FrequencySetTargetAtTime (filterFrequency state) (currentTime p) 0.1,
      QSetTargetAtTime (filterQ state) (currentTime p) 0.1] \<and>
   (let s = lastState us s0;
        e = session us s0 (mount (Some ctx) random s0 p0)
    in newCalls e (rerender s state p e) =
         (if (isPlaying state, noiseColor state) = (isPlaying s, noiseColor s) then []
          else (if isPlaying s then [SourceStop, SourceDisconnect] else []) @
               (if isPlaying state
                then (if ctxState p = Suspended then [CtxResume] else []) @
                     [CreateBufferSource, SourceSetBuffer (noiseColor state), SourceSetLoop True,
                      SourceConnectFilter, SourceStart,
                      GainCancelScheduledValues (currentTime p),
                      GainSetValueAtTime 0 (currentTime p),
                      GainLinearRampToValueAtTime (volume state) (currentTime p + 0.1)]
                else [GainCancelScheduledValues (currentTime p),
                      GainSetValueAtTime (gainValue p) (currentTime p),
                      GainLinearRampToValueAtTime 0 (currentTime p + 0.1)])) @
         (if (volume state, filterFrequency state, filterQ state, isPlaying state)
               = (volume s, filterFrequency s, filterQ s, isPlaying s) then []
          else (if isPlaying state
                then [GainSetTargetAtTime (volume state) (currentTime p) 0.1] else []) @
               [FrequencySetTargetAtTime (filterFrequency state) (currentTime p) 0.1,
                QSetTargetAtTime (filterQ state) (currentTime p) 0.1])) \<and>
   (0 \<le> volume state \<and> volume state \<le> 1 \<and> 20 \<le> filterFrequency state \<and>
    filterFrequency state \<le> 20000 \<and> 0 < filterQ state \<and> 0 \<le> gainValue p \<and> gainValue p \<le> 1
    \<longrightarrow> list_all inDomain (calls (mount AudioContextClass random' state p)) \<and>
        list_all inDomain (newCalls e' (rerender prev state p e')))"
proof (intro conjI impI)
  show "calls (mount (Some ctx) random state p) =
     [CreateGain, CreateBiquadFilter, CreateAnalyser, SetFilterType ''lowpass'',
      SetFftSize 2048, FilterConnectGain, GainConnectAnalyser, AnalyserConnectDestination] @
     (if isPlaying state
      then (if ctxState p = Suspended then [CtxResume] else []) @
           [CreateBufferSource, SourceSetBuffer (noiseColor state), SourceSetLoop True,
            SourceConnectFilter, SourceStart, GainCancelScheduledValues (currentTime p),
            GainSetValueAtTime 0 (currentTime p),
            GainLinearRampToValueAtTime (volume state) (currentTime p + 0.1),
            GainSetTargetAtTime (volume state) (currentTime p) 0.1]
      else [GainCancelScheduledValues (currentTime p),
            GainSetValueAtTime (gainValue p) (currentTime p),
            GainLinearRampToValueAtTime 0 (currentTime p + 0.1)]) @
     [FrequencySetTargetAtTime (filterFrequency state) (currentTime p) 0.1,
      QSetTargetAtTime (filterQ state) (currentTime p) 0.1]"
    by (simp add: mount_ready_calls attachCalls_def rampDownCalls_def paramCalls_def)
next
  have inv: "engine_inv (lastState us s0) (session us s0 (mount (Some ctx) random s0 p0))"
    by (rule reachable_inv)
  show "let s = lastState us s0;
        e = session us s0 (mount (Some ctx) random s0 p0)
    in newCalls e (rerender s state p e) =
         (if (isPlaying state, noiseColor state) = (isPlaying s, noiseColor s) then []
          else (if isPlaying s then [SourceStop, SourceDisconnect] else []) @
               (if isPlaying state
                then (if ctxState p = Suspended then [CtxResume] else []) @
                     [CreateBufferSource, SourceSetBuffer (noiseColor state), SourceSetLoop True,
                      SourceConnectFilter, SourceStart,
                      GainCancelScheduledValues (currentTime p),
                      GainSetValueAtTime 0 (currentTime p),
                      GainLinearRampToValueAtTime (volume state) (currentTime p + 0.1)]
                else [GainCancelScheduledValues (currentTime p),
                      GainSetValueAtTime (gainValue p) (currentTime p),
                      GainLinearRampToValueAtTime 0 (currentTime p + 0.1)])) @
         (if (volume state, filterFrequency state, filterQ state, isPlaying state)
               = (volume s, filterFrequency s, filterQ s, isPlaying s) then []
          else (if isPlaying state
                then [GainSetTargetAtTime (volume state) (currentTime p) 0.1] else []) @
               [FrequencySetTargetAtTime (filterFrequency state) (currentTime p) 0.1,
                QSetTargetAtTime (filterQ state) (currentTime p) 0.1])"
    unfolding Let_def rerender_newCalls[OF inv]
    by (simp add: playDeps_def paramDeps_def attachCalls_def rampDownCalls_def paramCalls_def)
next
  assume d: "0 \<le> volume state \<and> volume state \<le> 1 \<and> 20 \<le> filterFrequency state \<and>
    filterFrequency state \<le> 20000 \<and> 0 < filterQ state \<and> 0 \<le> gainValue p \<and> gainValue p \<le> 1"
  have "calls initialRefs = []" by (simp add: initialRefs_def)
  then show "list_all inDomain (calls (mount AudioContextClass random' state p))"
    using mount_extends[of state p AudioContextClass random'] d by (intro extends_Nil) simp_all
  show "list_all inDomain (newCalls e' (rerender prev state p e'))"
    using rerender_extends[of state p e' prev] d by (intro extends_newCalls) simp_all
qed

text \<open>The amended C1 when the volume of the playing engine is lowered to 0.25.\<close>

theorem submitted_values_reach_graph_unchanged_witness:
  "newCalls playingPinkEngine (rerender playingPink quieterPink atChange playingPinkEngine) =
     [GainSetTargetAtTime (1 / 4) 5 (1 / 10), FrequencySetTargetAtTime 5000 5 (1 / 10),
      QSetTargetAtTime 1 5 (1 / 10)] \<and>
   list_all inDomain (calls (mount (Some ctx44100) lowest_draws quieterPink atChange)) \<and>
   list_all inDomain (newCalls playingPinkEngine
      (rerender playingPink quieterPink atChange playingPinkEngine))"
proof -
  note t = submitted_values_reach_graph_unchanged[of ctx44100 lowest_draws quieterPink atChange "[(playingPink, atPlay)]"
      appInitialState atMount "Some ctx44100" lowest_draws playingPinkEngine playingPink]
  have d: "0 \<le> volume quieterPink \<and> volume quieterPink \<le> 1 \<and> 20 \<le> filterFrequency quieterPink \<and>
    filterFrequency quieterPink \<le> 20000 \<and> 0 < filterQ quieterPink \<and>
    0 \<le> gainValue atChange \<and> gainValue atChange \<le> 1"
    by (simp add: quieterPink_def playingPink_def appInitialState_def atChange_def)
  from t d have a: "list_all inDomain (calls (mount (Some ctx44100) lowest_draws quieterPink atChange)) \<and>
     list_all inDomain (newCalls playingPinkEngine
      (rerender playingPink quieterPink atChange playingPinkEngine))"
    by blast
  from t have "let s = lastState [(playingPink, atPlay)] appInitialState;
        e = session [(playingPink, atPlay)] appInitialState
              (mount (Some ctx44100) lowest_draws appInitialState atMount)
    in newCalls e (rerender s quieterPink atChange e) =
         (if (isPlaying quieterPink, noiseColor quieterPink) = (isPlaying s, noiseColor s) then []
          else (if isPlaying s then [SourceStop, SourceDisconnect] else []) @
               (if isPlaying quieterPink
                then (if ctxState atChange = Suspended then [CtxResume] else []) @
                     [CreateBufferSource, SourceSetBuffer (noiseColor quieterPink), SourceSetLoop True,
                      SourceConnectFilter, SourceStart,
                      GainCancelScheduledValues (currentTime atChange),
                      GainSetValueAtTime 0 (currentTime atChange),
                      GainLinearRampToValueAtTime (volume quieterPink) (currentTime atChange + 0.1)]
                else [GainCancelScheduledValues (currentTime atChange),
                      GainSetValueAtTime (gainValue atChange) (currentTime atChange),
                      GainLinearRampToValueAtTime 0 (currentTime atChange + 0.1)])) @
         (if (volume quieterPink, filterFrequency quieterPink, filterQ quieterPink, isPlaying quieterPink)
               = (volume s, filterFrequency s, filterQ s, isPlaying s) then []
          else (if isPlaying quieterPink
                then [GainSetTargetAtTime (volume quieterPink) (currentTime atChange) 0.1] else []) @
               [FrequencySetTargetAtTime (filterFrequency quieterPink) (currentTime atChange) 0.1,
                QSetTargetAtTime (filterQ quieterPink) (currentTime atChange) 0.1])"
    by blast
  then have b: "newCalls playingPinkEngine (rerender playingPink quieterPink atChange playingPinkEngine) =
     [GainSetTargetAtTime (1 / 4) 5 (1 / 10), FrequencySetTargetAtTime 5000 5 (1 / 10),
      QSetTargetAtTime 1 5 (1 / 10)]"
    unfolding Let_def lastState.simps fst_conv playingPinkEngine_def[symmetric]
    by (simp add: quieterPink_def playingPink_def appInitialState_def atChange_def)
  show ?thesis using a b by blast
qed

text \<open>
  C1 as stated fails: mounted with volume 2, filter frequency 50000 and resonance \<open>-1\<close>,
  the hook ramps the gain to 2, targets the gain at 2, the filter frequency at 50000 and
  the resonance at \<open>-1\<close>.
\<close>

theorem out_of_range_state_reaches_graph_unclamped:
  "calls (mount (Some ctx44100) lowest_draws outOfRangeState atMount) =
     [CreateGain, CreateBiquadFilter, CreateAnalyser, SetFilterType ''lowpass'',
      SetFftSize 2048, FilterConnectGain, GainConnectAnalyser, AnalyserConnectDestination,
      CtxResume, CreateBufferSource, SourceSetBuffer WHITE, SourceSetLoop True,
      SourceConnectFilter, SourceStart, GainCancelScheduledValues 0, GainSetValueAtTime 0 0,
      GainLinearRampToValueAtTime 2 (1 / 10), GainSetTargetAtTime 2 0 (1 / 10),
      FrequencySetTargetAtTime 50000 0 (1 / 10), QSetTargetAtTime (- 1) 0 (1 / 10)] \<and>
   \<not> list_all inDomain (calls (mount (Some ctx44100) lowest_draws outOfRangeState atMount))"
  by (simp add: mount_ready_calls attachCalls_def paramCalls_def outOfRangeState_def atMount_def)

text \<open>
  C2, as amended. In a component mounted with an AudioContext, a render that changes the
  noise colour while playing stays playing stops and disconnects the one existing source
  and creates, connects and starts one new source on the new colour's buffer; the gain's
  schedule is cancelled, the gain is set to 0 at the current time and ramps linearly to
  the submitted volume 0.1 s later. Parameter targets follow when a parameter changed too.
\<close>

theorem color_change_restarts_source_with_fade_from_zero:
  assumes "isPlaying (lastState us s0)" and "isPlaying s'"
    and "noiseColor s' \<noteq> noiseColor (lastState us s0)"
  shows "let s = lastState us s0;
             e = session us s0 (mount (Some ctx) random s0 p0);
             e' = rerender s s' p e
         in newCalls e e' =
              [SourceStop, SourceDisconnect] @
              (if ctxState p = Suspended then [CtxResume] else []) @
              [CreateBufferSource, SourceSetBuffer (noiseColor s'), SourceSetLoop True,
               SourceConnectFilter, SourceStart, GainCancelScheduledValues (currentTime p),
               GainSetValueAtTime 0 (currentTime p),
               GainLinearRampToValueAtTime (volume s') (currentTime p + 0.1)] @
              (if (volume s', filterFrequency s', filterQ s')
                    = (volume s, filterFrequency s, filterQ s) then []
               else [GainSetTargetAtTime (volume s') (currentTime p) 0.1,
                     FrequencySetTargetAtTime (filterFrequency s') (currentTime p) 0.1,
                     QSetTargetAtTime (filterQ s') (currentTime p) 0.1]) \<and>
            sourceNodeRef e = Some (noiseColor s) \<and> sourceNodeRef e' = Some (noiseColor s')"
proof -
  have inv: "engine_inv (lastState us s0) (session us s0 (mount (Some ctx) random s0 p0))"
    by (rule reachable_inv)
  show ?thesis
    unfolding Let_def rerender_newCalls[OF inv] rerender_source[OF inv]
    using assms inv
    by (simp add: playDeps_def paramDeps_def attachCalls_def paramCalls_def engine_inv_def)
qed

text \<open>The amended C2 when the engine playing PINK is switched to BROWN.\<close>

theorem color_change_restarts_source_with_fade_from_zero_witness:
  "isPlaying (lastState [(playingPink, atPlay)] appInitialState) \<and> isPlaying playingBrown \<and>
   noiseColor playingBrown \<noteq> noiseColor (lastState [(playingPink, atPlay)] appInitialState) \<and>
   sourceNodeRef playingPinkEngine = Some PINK \<and>
   sourceNodeRef (rerender playingPink playingBrown atChange playingPinkEngine) = Some BROWN"
  using color_change_restarts_source_with_fade_from_zero[of "[(playingPink, atPlay)]"
      appInitialState playingBrown ctx44100 lowest_draws atMount atChange]
  by (simp add: Let_def playingPinkEngine_def playingBrown_def playingPink_def
      appInitialState_def)

text \<open>
  C2 as stated fails: PINK plays at volume 0.5, the gain's current value is 0.5, and the
  colour changes to BROWN at time 5. One source is stopped and one is started, but the
  gain is set to 0 at time 5 and ramps from there to 0.5 at time 5.1.
\<close>

theorem color_change_sets_gain_to_zero:
  "newCalls playingPinkEngine (rerender playingPink playingBrown atChange playingPinkEngine) =
     [SourceStop, SourceDisconnect, CreateBufferSource, SourceSetBuffer BROWN,
      SourceSetLoop True, SourceConnectFilter, SourceStart, GainCancelScheduledValues 5,
      GainSetValueAtTime 0 5, GainLinearRampToValueAtTime (1 / 2) (51 / 10)] \<and>
   gainValue atChange = 1 / 2"
  unfolding rerender_newCalls[OF playingPinkEngine_inv]
  by (simp add: playDeps_def paramDeps_def attachCalls_def playingBrown_def playingPink_def
      appInitialState_def atChange_def)

text \<open>
  C3 says that on a transition of \<open>isPlaying\<close> from true to false the gain ramps from
  its current value to 0 over the fade window and that the source is stopped and
  detached only after that ramp. The code does otherwise. PINK plays, the gain's current
  value is 0.5, and the stop arrives at time 9: the source is stopped and disconnected in
  that render, before the ramp is even scheduled, and the ramp from 0.5 to 0 that ends
  at time 9.1 runs on a graph that has no source.
\<close>

theorem stop_detaches_source_before_fade:
  "newCalls playingPinkEngine (rerender playingPink stoppedPink atStop playingPinkEngine) =
     [SourceStop, SourceDisconnect, GainCancelScheduledValues 9,
      GainSetValueAtTime (1 / 2) 9, GainLinearRampToValueAtTime 0 (91 / 10),
      FrequencySetTargetAtTime 5000 9 (1 / 10), QSetTargetAtTime 1 9 (1 / 10)] \<and>
   sourceNodeRef (rerender playingPink stoppedPink atStop playingPinkEngine) = None"
  unfolding rerender_newCalls[OF playingPinkEngine_inv] rerender_source[OF playingPinkEngine_inv]
  by (simp add: playDeps_def paramDeps_def rampDownCalls_def paramCalls_def stoppedPink_def
      playingPink_def appInitialState_def atStop_def)

text \<open>
  C7. Rendering the AudioState that was rendered last runs no effect: the engine and its
  trace of calls are unchanged, so submitting a state twice equals submitting it once.
\<close>

theorem identical_state_is_noop:
  "rerender state state p e = e \<and>
   session [(state, p1), (state, p2)] prev e = session [(state, p1)] prev e"
  by (simp add: rerender_def)

text \<open>C7 on the engine playing PINK.\<close>

theorem identical_state_is_noop_witness:
  "rerender playingPink playingPink atChange playingPinkEngine = playingPinkEngine \<and>
   newCalls playingPinkEngine
     (rerender playingPink playingPink atChange playingPinkEngine) = []"
  using identical_state_is_noop[of playingPink atChange playingPinkEngine] by simp

text \<open>
  C8. Without an AudioContext constructor the first render returns no analyser, and
  after the mount and any sequence of submitted AudioStates every ref is still \<open>null\<close>:
  no source was attached, no call was made on any audio object (so none could throw),
  the hook returns no analyser and the visualizer never starts to draw spectrum frames.
\<close>

theorem unsupported_environment_ignores_every_state:
  "returnedAnalyser initialRefs = None \<and>
   (let e = session us s0 (mount None random s0 p0)
    in e = initialRefs \<and> sourceNodeRef e = None \<and> calls e = [] \<and>
       returnedAnalyser e = None \<and>
       visualizerFrame canvas (returnedAnalyser e) playing dataArray = None)"
proof -
  have "session us s0 (mount None random s0 p0) = initialRefs"
    unfolding mount_unsupported by (rule session_unsupported) (simp add: initialRefs_def)
  then show ?thesis
    by (simp add: Let_def initialRefs_def returnedAnalyser_def visualizerFrame_def)
qed

text \<open>C8 for a press of play and a colour change.\<close>

theorem unsupported_environment_ignores_every_state_witness:
  "sourceNodeRef (session [(playingPink, atPlay), (playingBrown, atChange)] appInitialState
      (mount None lowest_draws appInitialState atMount)) = None \<and>
   calls (session [(playingPink, atPlay), (playingBrown, atChange)] appInitialState
      (mount None lowest_draws appInitialState atMount)) = []"
  using unsupported_environment_ignores_every_state[of
      "[(playingPink, atPlay), (playingBrown, atChange)]" appInitialState
      lowest_draws atMount True True "[]"]
  by (simp add: Let_def initialRefs_def del: session.simps)

text \<open>
  C10. A render in which \<open>isPlaying\<close> and \<open>noiseColor\<close> are unchanged leaves every ref
  as it was, the source included; the calls it adds, if any, only set targets on the
  gain and the filter: with the context and the nodes in place and a parameter changed,
  exactly the gain target (while playing), the frequency target and the resonance target.
\<close>

theorem parameter_update_keeps_source:
  assumes "isPlaying state = isPlaying prev" and "noiseColor state = noiseColor prev"
  shows "(rerender prev state p e)\<lparr>calls := calls e\<rparr> = e \<and>
         sourceNodeRef (rerender prev state p e) = sourceNodeRef e \<and>
         calls (rerender prev state p e) = calls e @ newCalls e (rerender prev state p e) \<and>
         list_all isTargetCall (newCalls e (rerender prev state p e)) \<and>
         (audioCtxRef e \<noteq> None \<and> gainNodeRef e \<noteq> None \<and> filterNodeRef e \<noteq> None \<longrightarrow>
            newCalls e (rerender prev state p e) =
              (if (volume state, filterFrequency state, filterQ state)
                    = (volume prev, filterFrequency prev, filterQ prev) then []
               else (if isPlaying state
                     then [GainSetTargetAtTime (volume state) (currentTime p) 0.1] else []) @
                    [FrequencySetTargetAtTime (filterFrequency state) (currentTime p) 0.1,
                     QSetTargetAtTime (filterQ state) (currentTime p) 0.1]))"
  using assms
  by (auto simp: rerender_def playDeps_def paramDeps_def paramEffect_def newCalls_def)

text \<open>C10 when the volume of the playing engine is lowered to 0.25.\<close>

theorem parameter_update_keeps_source_witness:
  "isPlaying quieterPink = isPlaying playingPink \<and>
   noiseColor quieterPink = noiseColor playingPink \<and>
   sourceNodeRef (rerender playingPink quieterPink atChange playingPinkEngine) = Some PINK \<and>
   list_all isTargetCall (newCalls playingPinkEngine
      (rerender playingPink quieterPink atChange playingPinkEngine)) \<and>
   newCalls playingPinkEngine (rerender playingPink quieterPink atChange playingPinkEngine) =
     [GainSetTargetAtTime (1 / 4) 5 (1 / 10), FrequencySetTargetAtTime 5000 5 (1 / 10),
      QSetTargetAtTime 1 5 (1 / 10)]"
proof -
  have h: "isPlaying quieterPink = isPlaying playingPink"
    "noiseColor quieterPink = noiseColor playingPink"
    by (simp_all add: quieterPink_def)
  have src: "sourceNodeRef playingPinkEngine = Some PINK"
    using playingPinkEngine_inv
    by (simp add: engine_inv_def playingPink_def appInitialState_def)
  have nodes: "audioCtxRef playingPinkEngine \<noteq> None \<and> gainNodeRef playingPinkEngine \<noteq> None \<and>
      filterNodeRef playingPinkEngine \<noteq> None"
    using playingPinkEngine_inv by (simp add: engine_inv_def ready_def)
  note t = parameter_update_keeps_source[OF h, where p = atChange and e = playingPinkEngine]
  from t nodes have "newCalls playingPinkEngine
      (rerender playingPink quieterPink atChange playingPinkEngine) =
        (if (volume quieterPink, filterFrequency quieterPink, filterQ quieterPink)
              = (volume playingPink, filterFrequency playingPink, filterQ playingPink) then []
         else (if isPlaying quieterPink
               then [GainSetTargetAtTime (volume quieterPink) (currentTime atChange) 0.1] else []) @
              [FrequencySetTargetAtTime (filterFrequency quieterPink) (currentTime atChange) 0.1,
               QSetTargetAtTime (filterQ quieterPink) (currentTime atChange) 0.1])"
    by blast
  then have c: "newCalls playingPinkEngine
      (rerender playingPink quieterPink atChange playingPinkEngine) =
     [GainSetTargetAtTime (1 / 4) 5 (1 / 10), FrequencySetTargetAtTime 5000 5 (1 / 10),
      QSetTargetAtTime 1 5 (1 / 10)]"
    by (simp add: quieterPink_def playingPink_def appInitialState_def atChange_def)
  from t have "sourceNodeRef (rerender playingPink quieterPink atChange playingPinkEngine)
      = sourceNodeRef playingPinkEngine"
    and "list_all isTargetCall (newCalls playingPinkEngine
      (rerender playingPink quieterPink atChange playingPinkEngine))"
    by blast+
  then show ?thesis using h src c by simp
qed

end
